theory Spec2Isabelle
  imports Main "HOL-Library.Word"
begin

section \<open>The download example (real-world\_example.py)\<close>

text \<open>
  The script fetches each URL of a module-level list and stores the response body under
  \<^verbatim>\<open>./images/<name>.jpg\<close>. The network and the file system are outside the script; they are
  the fields of an explicit world that every function takes and returns.
\<close>

type_synonym bytes = "8 word list"

datatype py_error =
    TypeError_missing_argument string  \<comment> \<open>a call that leaves the named positional parameter unbound\<close>
  | TypeError_too_many_arguments
  | IndexError
  | RequestException                   \<comment> \<open>raised by \<^verbatim>\<open>requests.get\<close>\<close>
  | OSError                            \<comment> \<open>raised by \<^verbatim>\<open>open\<close>\<close>

record world =
  responses :: "string \<Rightarrow> py_error + bytes"  \<comment> \<open>what a GET of the URL gives: an exception or the body\<close>
  openable :: "string \<Rightarrow> bool"               \<comment> \<open>whether \<^verbatim>\<open>open(path, 'wb')\<close> succeeds\<close>
  requested :: "string list"                 \<comment> \<open>the GET requests performed so far, oldest first\<close>
  files :: "string \<rightharpoonup> bytes"
  stdout :: "string list"

definition img_urls :: "string list" where
  "img_urls =
    [''https://images.unsplash.com/photo-1516117172878-fd2c41f4a759'',
     ''https://images.unsplash.com/photo-1532009324734-20a7a5813719'',
     ''https://images.unsplash.com/photo-1524429656589-6633a470097c'',
     ''https://images.unsplash.com/photo-1530224264768-7ff8c1789d79'',
     ''https://images.unsplash.com/photo-1564135624576-c5c88640f235'',
     ''https://images.unsplash.com/photo-1541698444083-023c97d3f4b6'',
     ''https://images.unsplash.com/photo-1522364723953-452d3431c267'',
     ''https://images.unsplash.com/photo-1513938709626-033611b8cc03'',
     ''https://images.unsplash.com/photo-1507143550189-fed454f93097'',
     ''https://images.unsplash.com/photo-1493976040374-85c8e12f0c0e'',
     ''https://images.unsplash.com/photo-1504198453319-5ce911bafcde'',
     ''https://images.unsplash.com/photo-1530122037265-a5f1f91d3b99'',
     ''https://images.unsplash.com/photo-1516972810927-80185027ca84'',
     ''https://images.unsplash.com/photo-1550439062-609e1531270e'',
     ''https://images.unsplash.com/photo-1549692520-acc6669e2f0c'']"

text \<open>
  \<^verbatim>\<open>str.split(sep)\<close> with a one-character separator: one piece more than there are
  separators, empty pieces kept.
\<close>

fun str_split :: "char \<Rightarrow> string \<Rightarrow> string list" where
  "str_split sep [] = [[]]"
| "str_split sep (c # cs) =
     (if c = sep then [] # str_split sep cs
      else (case str_split sep cs of
              [] \<Rightarrow> [[c]]
            | piece # pieces \<Rightarrow> (c # piece) # pieces))"

text \<open>List indexing with a non-negative index; out of range raises.\<close>

definition list_index :: "'a list \<Rightarrow> nat \<Rightarrow> py_error + 'a" where
  "list_index xs i = (if i < length xs then Inr (xs ! i) else Inl IndexError)"

definition img_path :: "string \<Rightarrow> string" where
  "img_path img_name = ''./images/'' @ img_name @ ''.jpg''"

text \<open>
  \<^verbatim>\<open>download_image(img_url)\<close>: the GET comes first, then the name is cut out of the URL,
  then the file is opened for writing (replacing what was there), written and reported.
  The result is the exception raised, if any, and the world as the call left it.
\<close>

definition download_image :: "string \<Rightarrow> world \<Rightarrow> (py_error + unit) \<times> world" where
  "download_image img_url w =
     (let w1 = w\<lparr>requested := requested w @ [img_url]\<rparr> in
      case responses w img_url of
        Inl e \<Rightarrow> (Inl e, w1)
      | Inr img_bytes \<Rightarrow>
          (case list_index (str_split CHR ''/'' img_url) 3 of
             Inl e \<Rightarrow> (Inl e, w1)
           | Inr img_name \<Rightarrow>
               if \<not> openable w1 (img_path img_name) then (Inl OSError, w1)
               else (Inr (),
                     w1\<lparr>files := (files w1)(img_path img_name \<mapsto> img_bytes),
                        stdout := stdout w1 @ [img_path img_name @ '' was downloaded...'']\<rparr>)))"

text \<open>
  A call of \<^verbatim>\<open>download_image\<close> with a list of positional arguments: the function has one
  required parameter and no default, so any other number of arguments raises before
  the body runs.
\<close>

definition call_download_image :: "string list \<Rightarrow> world \<Rightarrow> (py_error + unit) \<times> world" where
  "call_download_image args w =
     (case args of
        [] \<Rightarrow> (Inl (TypeError_missing_argument ''img_url''), w)
      | [img_url] \<Rightarrow> download_image img_url w
      | _ \<Rightarrow> (Inl TypeError_too_many_arguments, w))"

text \<open>
  \<^verbatim>\<open>get_images_standard\<close>: the loop over the URLs calls \<^verbatim>\<open>download_image()\<close> with an empty
  argument list; the loop variable is not used. An exception ends the loop.
\<close>

fun get_images_standard_loop :: "string list \<Rightarrow> world \<Rightarrow> (py_error + unit) \<times> world" where
  "get_images_standard_loop [] w = (Inr (), w)"
| "get_images_standard_loop (img_url # rest) w =
     (case call_download_image [] w of
        (Inl e, w') \<Rightarrow> (Inl e, w')
      | (Inr u, w') \<Rightarrow> get_images_standard_loop rest w')"

definition get_images_standard :: "world \<Rightarrow> (py_error + unit) \<times> world" where
  "get_images_standard w = get_images_standard_loop img_urls w"

text \<open>The fourth \<^verbatim>\<open>/\<close>-separated piece of each entry of \<^verbatim>\<open>img_urls\<close>, in the list's order.\<close>

definition img_names :: "string list" where
  "img_names =
    [''photo-1516117172878-fd2c41f4a759'',
     ''photo-1532009324734-20a7a5813719'',
     ''photo-1524429656589-6633a470097c'',
     ''photo-1530224264768-7ff8c1789d79'',
     ''photo-1564135624576-c5c88640f235'',
     ''photo-1541698444083-023c97d3f4b6'',
     ''photo-1522364723953-452d3431c267'',
     ''photo-1513938709626-033611b8cc03'',
     ''photo-1507143550189-fed454f93097'',
     ''photo-1493976040374-85c8e12f0c0e'',
     ''photo-1504198453319-5ce911bafcde'',
     ''photo-1530122037265-a5f1f91d3b99'',
     ''photo-1516972810927-80185027ca84'',
     ''photo-1550439062-609e1531270e'',
     ''photo-1549692520-acc6669e2f0c'']"

text \<open>
  A world to run the functions in: every GET answers with the same three bytes, every
  path can be opened, nothing has been requested, written or printed yet.
\<close>

definition world0 :: world where
  "world0 = \<lparr>responses = (\<lambda>u. Inr [255, 216, 255]), openable = (\<lambda>p. True),
             requested = [], files = Map.empty, stdout = []\<rparr>"

section \<open>Properties of the download example\<close>

lemma get_images_standard_loop_raises:
  "urls \<noteq> [] \<Longrightarrow>
   get_images_standard_loop urls w = (Inl (TypeError_missing_argument ''img_url''), w)"
  by (cases urls) (simp_all add: call_download_image_def)

lemma img_urls_nonempty: "img_urls \<noteq> []"
  by (simp add: img_urls_def)

text \<open>
  C3. \<^verbatim>\<open>get_images_standard\<close> calls \<^verbatim>\<open>download_image\<close> with no argument, so on the module's
  URL list every call raises the missing-argument error in the first iteration, and the
  world is as it was: no request was sent and no file was written.
\<close>

theorem get_images_standard_missing_argument:
  "img_urls \<noteq> [] \<and>
   call_download_image [] w = (Inl (TypeError_missing_argument ''img_url''), w) \<and>
   get_images_standard w = (Inl (TypeError_missing_argument ''img_url''), w) \<and>
   requested (snd (get_images_standard w)) = requested w \<and>
   files (snd (get_images_standard w)) = files w"
  by (simp add: get_images_standard_def get_images_standard_loop_raises img_urls_nonempty
      call_download_image_def)

subsection \<open>The file a download writes\<close>

lemma img_urls_split:
  "map (str_split CHR ''/'') img_urls =
   map (\<lambda>n. [''https:'', [], ''images.unsplash.com'', n]) img_names"
  by (simp add: img_urls_def img_names_def)

lemma distinct_img_names: "distinct img_names"
  by (simp add: img_names_def)

lemma inj_on_img_path: "inj_on img_path A"
  by (simp add: inj_on_def img_path_def)

lemma img_urls_paths:
  "map (\<lambda>u. img_path (str_split CHR ''/'' u ! 3)) img_urls = map img_path img_names"
proof -
  have "map (\<lambda>u. img_path (str_split CHR ''/'' u ! 3)) img_urls
        = map (\<lambda>s. img_path (s ! 3)) (map (str_split CHR ''/'') img_urls)"
    by (simp add: comp_def)
  also have "\<dots> = map img_path img_names"
    by (simp only: img_urls_split) (simp add: comp_def)
  finally show ?thesis .
qed

lemma img_urls_segments: "\<forall>u \<in> set img_urls. length (str_split CHR ''/'' u) = 4"
proof -
  have "\<forall>s \<in> set (map (str_split CHR ''/'') img_urls). length s = 4"
    by (simp only: img_urls_split) simp
  then show ?thesis by simp
qed

lemma download_image_requests_once:
  "requested (snd (download_image url w)) = requested w @ [url]"
  by (simp add: download_image_def Let_def split: sum.splits)

text \<open>
  C10. For a URL with at least four \<^verbatim>\<open>/\<close>-separated pieces, \<^verbatim>\<open>download_image\<close> sends one GET
  for that URL and, the GET having answered with a body and the path being one that can
  be opened for writing, returns normally with exactly that body stored under
  \<^verbatim>\<open>./images/<s>.jpg\<close>, \<^verbatim>\<open><s>\<close> being the piece at index 3. The 15 entries of \<^verbatim>\<open>img_urls\<close> are
  distinct, each has its four pieces, and their 15 file paths are distinct.
\<close>

theorem download_image_writes_fourth_segment:
  assumes segs: "4 \<le> length (str_split CHR ''/'' url)"
    and resp: "responses w url = Inr body"
    and opn: "openable w (img_path (str_split CHR ''/'' url ! 3))"
  shows "download_image url w =
           (Inr (), w\<lparr>requested := requested w @ [url],
                      files := (files w)(img_path (str_split CHR ''/'' url ! 3) \<mapsto> body),
                      stdout := stdout w @
                        [img_path (str_split CHR ''/'' url ! 3) @ '' was downloaded...'']\<rparr>)
         \<and> img_path (str_split CHR ''/'' url ! 3)
             = ''./images/'' @ str_split CHR ''/'' url ! 3 @ ''.jpg''
         \<and> length img_urls = 15 \<and> distinct img_urls
         \<and> (\<forall>u \<in> set img_urls. 4 \<le> length (str_split CHR ''/'' u))
         \<and> distinct (map (\<lambda>u. img_path (str_split CHR ''/'' u ! 3)) img_urls)"
proof -
  have "download_image url w =
           (Inr (), w\<lparr>requested := requested w @ [url],
                      files := (files w)(img_path (str_split CHR ''/'' url ! 3) \<mapsto> body),
                      stdout := stdout w @
                        [img_path (str_split CHR ''/'' url ! 3) @ '' was downloaded...'']\<rparr>)"
    using segs resp opn by (simp add: download_image_def list_index_def Let_def)
  moreover have "img_path (str_split CHR ''/'' url ! 3)
                 = ''./images/'' @ str_split CHR ''/'' url ! 3 @ ''.jpg''"
    by (simp only: img_path_def)
  moreover have "length img_urls = 15"
    by (simp add: img_urls_def)
  moreover have "distinct img_urls"
    by (simp add: img_urls_def)
  moreover have "\<forall>u \<in> set img_urls. 4 \<le> length (str_split CHR ''/'' u)"
    using img_urls_segments by simp
  moreover have "distinct (map (\<lambda>u. img_path (str_split CHR ''/'' u ! 3)) img_urls)"
    by (simp only: img_urls_paths) (simp add: distinct_map distinct_img_names inj_on_img_path)
  ultimately show ?thesis by blast
qed

text \<open>The theorem at the first entry of \<^verbatim>\<open>img_urls\<close>, in the sample world.\<close>

theorem download_image_writes_fourth_segment_witness:
  "4 \<le> length (str_split CHR ''/''
                 ''https://images.unsplash.com/photo-1516117172878-fd2c41f4a759'')
   \<and> responses world0 ''https://images.unsplash.com/photo-1516117172878-fd2c41f4a759''
       = Inr [255, 216, 255]
   \<and> openable world0 ''./images/photo-1516117172878-fd2c41f4a759.jpg''
   \<and> fst (download_image ''https://images.unsplash.com/photo-1516117172878-fd2c41f4a759''
            world0) = Inr ()
   \<and> files (snd (download_image
                   ''https://images.unsplash.com/photo-1516117172878-fd2c41f4a759'' world0))
        ''./images/photo-1516117172878-fd2c41f4a759.jpg'' = Some [255, 216, 255]
   \<and> requested (snd (download_image
                   ''https://images.unsplash.com/photo-1516117172878-fd2c41f4a759'' world0))
        = [''https://images.unsplash.com/photo-1516117172878-fd2c41f4a759'']"
proof -
  have s: "str_split CHR ''/'' ''https://images.unsplash.com/photo-1516117172878-fd2c41f4a759''
           = [''https:'', [], ''images.unsplash.com'', ''photo-1516117172878-fd2c41f4a759'']"
    by simp
  have h1: "4 \<le> length (str_split CHR ''/''
                 ''https://images.unsplash.com/photo-1516117172878-fd2c41f4a759'')"
    by (simp only: s) simp
  have h2: "responses world0 ''https://images.unsplash.com/photo-1516117172878-fd2c41f4a759''
            = Inr [255, 216, 255]"
    by (simp add: world0_def)
  have h3: "openable world0 (img_path (str_split CHR ''/''
                 ''https://images.unsplash.com/photo-1516117172878-fd2c41f4a759'' ! 3))"
    by (simp add: world0_def)
  show ?thesis
    using download_image_writes_fourth_segment [OF h1 h2 h3] h1 h2
    by (simp add: s img_path_def world0_def)
qed

end
